theory Spec2Isabelle
  imports Main
begin

section \<open>JavaScript values, HTTP and the DOM as the components see them\<close>

text \<open>
  The storefront's account forms and API route are TypeScript. The parts of the platform
  they touch are modelled here as plain data: JSON values (what \<^verbatim>\<open>res.json()\<close> and
  \<^verbatim>\<open>request.json()\<close> produce), thrown values, HTTP requests and responses, and the
  two properties of an input element the validation code reads. Elements of a
  \<^typ>\<open>string\<close> stand for the code units of a JavaScript string. Of a JSON number
  the code observes only whether it is zero, so numbers are kept as integers.
\<close>

datatype json_value =
    JNull
  | JBool bool
  | JNum int
  | JStr string
  | JArr "json_value list"
  | JObj "(string \<times> json_value) list"

text \<open>A thrown value, kept as the text its \<^verbatim>\<open>toString()\<close> yields.\<close>

datatype js_error = JsError string

fun toString :: "js_error \<Rightarrow> string" where
  "toString (JsError s) = s"

definition TypeError :: js_error where
  "TypeError = JsError ''TypeError''"

text \<open>
  JavaScript truthiness, as every \<^verbatim>\<open>if (x)\<close> of the source applies it: \<^verbatim>\<open>null\<close>,
  \<^verbatim>\<open>false\<close>, \<^verbatim>\<open>0\<close> and the empty string are falsy, arrays and objects are truthy;
  \<^verbatim>\<open>undefined\<close> (\<^const>\<open>None\<close>) is falsy.
\<close>

fun truthy :: "json_value \<Rightarrow> bool" where
  "truthy JNull = False"
| "truthy (JBool b) = b"
| "truthy (JNum n) = (n \<noteq> 0)"
| "truthy (JStr s) = (s \<noteq> [])"
| "truthy (JArr xs) = True"
| "truthy (JObj kvs) = True"

fun truthy_opt :: "json_value option \<Rightarrow> bool" where
  "truthy_opt None = False"
| "truthy_opt (Some v) = truthy v"

text \<open>Truthiness of a \<^verbatim>\<open>string | null | undefined\<close> local, as in \<^verbatim>\<open>if (emailError)\<close>.\<close>

fun truthy_str :: "string option \<Rightarrow> bool" where
  "truthy_str None = False"
| "truthy_str (Some s) = (s \<noteq> [])"

text \<open>
  Reading a property of a parsed JSON value, \<^verbatim>\<open>v.k\<close>: on \<^verbatim>\<open>null\<close> it throws a
  TypeError, on an object it yields the member (the last one when a key is repeated, as
  \<^verbatim>\<open>JSON.parse\<close> keeps it) or \<^verbatim>\<open>undefined\<close>, on anything else \<^verbatim>\<open>undefined\<close>
  (the keys read by this code are never built-in properties of arrays or strings).
\<close>

fun get_prop :: "json_value \<Rightarrow> string \<Rightarrow> js_error + json_value option" where
  "get_prop JNull k = Inl TypeError"
| "get_prop (JObj kvs) k = Inr (map_of (rev kvs) k)"
| "get_prop v k = Inr None"

record request =
  path :: string
  http_method :: string
  headers :: "(string \<times> string) list"
  body :: json_value

text \<open>
  A response: the fields the code reads, and what \<^verbatim>\<open>json()\<close> yields (the parsed body, or
  the error it throws on a body that is not JSON).
\<close>

record response =
  ok :: bool
  url :: string
  status :: nat
  json :: "js_error + json_value"

text \<open>What a \<^verbatim>\<open>fetch\<close> settles to: a thrown transport failure, or a response.\<close>

type_synonym fetch_outcome = "js_error + response"

text \<open>
  What a handler does beyond updating its component's state, in order. \<open>Uncaught\<close> is an
  exception that leaves the handler (for an async handler, an unhandled rejection).
\<close>

datatype effect =
    Fetch request
  | Navigate string
  | ConsoleError string
  | RenderServerComponents
  | Close
  | Uncaught js_error

definition json_headers :: "(string \<times> string) list" where
  "json_headers = [(''Accept'', ''application/json''), (''Content-Type'', ''application/json'')]"

text \<open>
  An input element as the handlers read it: \<^verbatim>\<open>value\<close>, \<^verbatim>\<open>validity.valid\<close> and
  \<^verbatim>\<open>validity.valueMissing\<close>.
\<close>

record validity_state =
  valid :: bool
  valueMissing :: bool

record html_input =
  input_value :: string
  validity :: validity_state

text \<open>
  HTML constraint validation for the attributes the forms' inputs carry: \<^verbatim>\<open>required\<close>
  (value missing when empty), \<^verbatim>\<open>minLength\<close> (too short when non-empty and shorter; the
  values of these controlled inputs come from the user's typing) and a type mismatch
  supplied by the caller (\<^verbatim>\<open>type="email"\<close>). The element is valid when none applies.
\<close>

definition constraint_validity :: "bool \<Rightarrow> nat \<Rightarrow> bool \<Rightarrow> string \<Rightarrow> validity_state" where
  "constraint_validity required minLength typeMismatch v =
     \<lparr>valid = \<not> ((required \<and> v = []) \<or> (v \<noteq> [] \<and> length v < minLength) \<or> typeMismatch),
      valueMissing = (required \<and> v = [])\<rparr>"

text \<open>\<^verbatim>\<open><input type="password" value={v} minLength={8} required />\<close>, the password input
  of all three forms.\<close>

definition password_input :: "string \<Rightarrow> html_input" where
  "password_input v = \<lparr>input_value = v, validity = constraint_validity True 8 False v\<rparr>"

text \<open>\<^verbatim>\<open><input type="email" value={v} required />\<close>; \<open>is_email\<close> is the browser's
  email-format test.\<close>

definition email_input :: "(string \<Rightarrow> bool) \<Rightarrow> string \<Rightarrow> html_input" where
  "email_input is_email v =
     \<lparr>input_value = v, validity = constraint_validity True 0 (v \<noteq> [] \<and> \<not> is_email v) v\<rparr>"

section \<open>AccountLoginForm\<close>

text \<open>
  The component's six \<^verbatim>\<open>useState\<close> slots. A handler reads the values of the render it
  was created in and writes through the setters; the model passes the state read and
  returns the state written.
\<close>

record login_state =
  hasSubmitError :: bool
  showEmailField :: bool
  login_email :: string
  login_emailError :: "string option"
  login_password :: string
  login_passwordError :: "string option"

text \<open>
  \<^verbatim>\<open>event.currentTarget\<close>: the form's named controls. The email input is rendered only
  while \<^verbatim>\<open>showEmailField\<close>, the password input only otherwise; an absent control reads
  as \<^verbatim>\<open>undefined\<close>.
\<close>

record login_form =
  form_email :: "html_input option"
  form_password :: "html_input option"

definition login_form_of :: "(string \<Rightarrow> bool) \<Rightarrow> login_state \<Rightarrow> login_form" where
  "login_form_of is_email st =
     (if showEmailField st
      then \<lparr>form_email = Some (email_input is_email (login_email st)), form_password = None\<rparr>
      else \<lparr>form_email = None, form_password = Some (password_input (login_password st))\<rparr>)"

definition resetForm :: "login_state \<Rightarrow> login_state" where
  "resetForm st =
     st\<lparr>showEmailField := True, login_email := [], login_emailError := None,
        login_password := [], login_passwordError := None\<rparr>"

text \<open>
  \<^verbatim>\<open>callLoginApi\<close> awaits one \<^verbatim>\<open>fetch\<close>. The model splits it there: the request it
  issues, and the value it returns once the fetch has settled. \<open>Inl\<close> is a rejected
  promise: \<^verbatim>\<open>return res.json()\<close> hands the parse to the caller, outside the \<^verbatim>\<open>try\<close>.
\<close>

definition callLoginApi_request :: "string \<Rightarrow> string \<Rightarrow> request" where
  "callLoginApi_request email password =
     \<lparr>path = ''/account/login'', http_method = ''POST'', headers = json_headers,
      body = JObj [(''email'', JStr email), (''password'', JStr password)]\<rparr>"

definition callLoginApi_result :: "fetch_outcome \<Rightarrow> js_error + json_value" where
  "callLoginApi_result outcome =
     (case outcome of
        Inl error \<Rightarrow> Inr (JObj [(''error'', JStr (toString error))])
      | Inr res \<Rightarrow> if ok res then Inr (JObj []) else json res)"

definition checkEmail :: "login_state \<Rightarrow> login_form \<Rightarrow> login_state \<times> effect list" where
  "checkEmail st ev =
     (case form_email ev of
        None \<Rightarrow> (st, [Uncaught TypeError])
      | Some email \<Rightarrow>
          if valid (validity email) then (st\<lparr>showEmailField := False\<rparr>, [])
          else (st\<lparr>login_emailError := Some ''Please enter a valid email''\<rparr>, []))"

text \<open>
  \<^verbatim>\<open>checkPassword\<close> up to its \<^verbatim>\<open>await\<close>: \<open>rd\<close> is the state of the render the handler
  closes over (it supplies \<^verbatim>\<open>email\<close> and \<^verbatim>\<open>password\<close>), \<open>st\<close> the state being written.
\<close>

definition checkPassword_start ::
  "login_state \<Rightarrow> login_state \<Rightarrow> login_form \<Rightarrow> login_state \<times> effect list" where
  "checkPassword_start rd st ev =
     (case form_password ev of
        None \<Rightarrow> (st, [Uncaught TypeError])
      | Some password \<Rightarrow>
          if valid (validity password)
          then (st, [Fetch (callLoginApi_request (login_email rd) (login_password rd))])
          else (st\<lparr>login_passwordError :=
                   Some (if valueMissing (validity password) then ''Please enter a password''
                         else ''Passwords must be at least 6 characters'')\<rparr>, []))"

text \<open>\<^verbatim>\<open>checkPassword\<close> after the \<^verbatim>\<open>await\<close>, run on the state current at that time.\<close>

definition checkPassword_resume :: "login_state \<Rightarrow> fetch_outcome \<Rightarrow> login_state \<times> effect list" where
  "checkPassword_resume st outcome =
     (case callLoginApi_result outcome of
        Inl e \<Rightarrow> (st, [Uncaught e])
      | Inr response \<Rightarrow>
          (case get_prop response ''error'' of
             Inl e \<Rightarrow> (st, [Uncaught e])
           | Inr err \<Rightarrow>
               if truthy_opt err then (resetForm (st\<lparr>hasSubmitError := True\<rparr>), [])
               else (st, [Navigate ''/account''])))"

text \<open>The submit handler of the login form, up to the point where it waits for the network.\<close>

definition login_onSubmit :: "login_state \<Rightarrow> login_form \<Rightarrow> login_state \<times> effect list" where
  "login_onSubmit st ev =
     (let st1 = st\<lparr>login_emailError := None, hasSubmitError := False, login_passwordError := None\<rparr>
      in if showEmailField st then checkEmail st1 ev else checkPassword_start st st1 ev)"

section \<open>AccountPasswordResetForm\<close>

record reset_props =
  id_prop :: string
  resetToken :: string

text \<open>\<^verbatim>\<open>submitError\<close> receives \<^verbatim>\<open>response.error\<close> as it comes, so it holds any JSON value.\<close>

record reset_state =
  reset_submitError :: "json_value option"
  reset_password :: string
  reset_passwordError :: "string option"
  reset_passwordConfirm :: string
  reset_passwordConfirmError :: "string option"

record reset_form =
  reset_form_password :: html_input
  reset_form_passwordConfirm :: html_input

text \<open>Both inputs are controlled: each shows the state's value, required, at least 8 long.\<close>

definition reset_form_of :: "reset_state \<Rightarrow> reset_form" where
  "reset_form_of st =
     \<lparr>reset_form_password = password_input (reset_password st),
      reset_form_passwordConfirm = password_input (reset_passwordConfirm st)\<rparr>"

text \<open>
  The component's \<^verbatim>\<open>passwordValidation\<close> is three \<^verbatim>\<open>if\<close> statements in a row over
  \<^verbatim>\<open>hasError\<close> and the two error slots; each is one function here, on the pair of
  \<^verbatim>\<open>hasError\<close> and the state written so far. First the primary field.
\<close>

definition reset_check_password :: "reset_form \<Rightarrow> bool \<times> reset_state \<Rightarrow> bool \<times> reset_state" where
  "reset_check_password form hs =
     (if \<not> valid (validity (reset_form_password form))
      then (True, (snd hs)\<lparr>reset_passwordError :=
                    Some (if valueMissing (validity (reset_form_password form))
                          then ''Please enter a password''
                          else ''Passwords must be at least 6 characters'')\<rparr>)
      else hs)"

text \<open>Then the confirmation field; the message is picked by the primary field's
  \<^verbatim>\<open>valueMissing\<close>, as the source has it.\<close>

definition reset_check_confirm :: "reset_form \<Rightarrow> bool \<times> reset_state \<Rightarrow> bool \<times> reset_state" where
  "reset_check_confirm form hs =
     (if \<not> valid (validity (reset_form_passwordConfirm form))
      then (True, (snd hs)\<lparr>reset_passwordConfirmError :=
                    Some (if valueMissing (validity (reset_form_password form))
                          then ''Please re-enter a password''
                          else ''Passwords must be at least 6 characters'')\<rparr>)
      else hs)"

text \<open>Last the comparison of the two state values (\<open>rd\<close> is the render's state).\<close>

definition reset_check_match :: "reset_state \<Rightarrow> bool \<times> reset_state \<Rightarrow> bool \<times> reset_state" where
  "reset_check_match rd hs =
     (if reset_password rd \<noteq> reset_passwordConfirm rd
      then (True, (snd hs)\<lparr>reset_passwordConfirmError :=
                    Some ''The two password entered did not match.''\<rparr>)
      else hs)"

definition reset_passwordValidation :: "reset_state \<Rightarrow> reset_form \<Rightarrow> bool \<times> reset_state" where
  "reset_passwordValidation st form =
     reset_check_match st
       (reset_check_confirm form
         (reset_check_password form
           (False, st\<lparr>reset_passwordError := None, reset_passwordConfirmError := None\<rparr>)))"

definition callPasswordResetApi_request :: "string \<Rightarrow> string \<Rightarrow> string \<Rightarrow> request" where
  "callPasswordResetApi_request ident token password =
     \<lparr>path = ''/account/reset'', http_method = ''POST'', headers = json_headers,
      body = JObj [(''id'', JStr ident), (''resetToken'', JStr token),
                   (''password'', JStr password)]\<rparr>"

definition callPasswordResetApi_result :: "fetch_outcome \<Rightarrow> js_error + json_value" where
  "callPasswordResetApi_result outcome =
     (case outcome of
        Inl error \<Rightarrow> Inr (JObj [(''error'', JStr (toString error))])
      | Inr res \<Rightarrow> if ok res then Inr (JObj []) else json res)"

text \<open>The submit handler up to its \<^verbatim>\<open>await\<close>, and from there on.\<close>

definition reset_onSubmit ::
  "reset_props \<Rightarrow> reset_state \<Rightarrow> reset_form \<Rightarrow> reset_state \<times> effect list" where
  "reset_onSubmit props st form =
     (case reset_passwordValidation st form of
        (hasError, st1) \<Rightarrow>
          if hasError then (st1, [])
          else (st1, [Fetch (callPasswordResetApi_request (id_prop props) (resetToken props)
                               (reset_password st))]))"

definition reset_onSubmit_resume :: "reset_state \<Rightarrow> fetch_outcome \<Rightarrow> reset_state \<times> effect list" where
  "reset_onSubmit_resume st outcome =
     (case callPasswordResetApi_result outcome of
        Inl e \<Rightarrow> (st, [Uncaught e])
      | Inr response \<Rightarrow>
          (case get_prop response ''error'' of
             Inl e \<Rightarrow> (st, [Uncaught e])
           | Inr err \<Rightarrow>
               if truthy_opt err then (st\<lparr>reset_submitError := err\<rparr>, [])
               else (st, [Navigate ''/account''])))"

section \<open>AccountDetailsEdit\<close>

text \<open>
  Modelled from the spec: \<^verbatim>\<open>emailValidation\<close> of \<^verbatim>\<open>~/lib/utils\<close>, which the component
  imports and whose file is not among the sources. The spec gives the rule: the email
  must pass the built-in email-format validity, failure message "Please enter a valid
  email".
\<close>

definition emailValidation :: "html_input \<Rightarrow> string option" where
  "emailValidation email =
     (if valid (validity email) then None else Some ''Please enter a valid email'')"

text \<open>
  Modelled from the spec: \<^verbatim>\<open>passwordValidation\<close> of \<^verbatim>\<open>~/lib/utils\<close>, imported likewise.
  The spec gives the rule: missing value, "Please enter a password"; too short,
  "Passwords must be at least 6 characters".
\<close>

definition passwordValidation :: "html_input \<Rightarrow> string option" where
  "passwordValidation password =
     (if valid (validity password) then None
      else if valueMissing (validity password) then Some ''Please enter a password''
      else Some ''Passwords must be at least 6 characters'')"

record edit_state =
  saving :: bool
  firstName :: string
  lastName :: string
  phone :: string
  edit_email :: string
  edit_emailError :: "string option"
  currentPasswordError :: "string option"
  newPasswordError :: "string option"
  newPassword2Error :: "string option"
  edit_submitError :: "json_value option"

text \<open>The four controls \<^verbatim>\<open>onSubmit\<close> reads from \<^verbatim>\<open>event.currentTarget\<close>.\<close>

record edit_form =
  edit_form_email :: html_input
  currentPassword :: html_input
  newPassword :: html_input
  newPassword2 :: html_input

text \<open>
  The form as rendered: the email input is controlled by the component's state; each
  password input is a \<^verbatim>\<open>Password\<close> component holding its own value.
\<close>

definition edit_form_of ::
  "(string \<Rightarrow> bool) \<Rightarrow> edit_state \<Rightarrow> string \<Rightarrow> string \<Rightarrow> string \<Rightarrow> edit_form" where
  "edit_form_of is_email st current new new2 =
     \<lparr>edit_form_email = email_input is_email (edit_email st),
      currentPassword = password_input current,
      newPassword = password_input new,
      newPassword2 = password_input new2\<rparr>"

text \<open>The locals \<^verbatim>\<open>emailError\<close>, \<^verbatim>\<open>currentPasswordError\<close>, \<^verbatim>\<open>newPasswordError\<close> and
  \<^verbatim>\<open>newPassword2Error\<close> of \<^verbatim>\<open>onSubmit\<close>; the last three stay \<^verbatim>\<open>undefined\<close> unless the
  current password has a value.\<close>

record edit_errors =
  err_email :: "string option"
  err_currentPassword :: "string option"
  err_newPassword :: "string option"
  err_newPassword2 :: "string option"

definition edit_local_errors :: "edit_form \<Rightarrow> edit_errors" where
  "edit_local_errors form =
     (if input_value (currentPassword form) \<noteq> []
      then \<lparr>err_email = emailValidation (edit_form_email form),
            err_currentPassword = passwordValidation (currentPassword form),
            err_newPassword = passwordValidation (newPassword form),
            err_newPassword2 =
              (if input_value (newPassword form) \<noteq> input_value (newPassword2 form)
               then Some ''The two passwords entered did not match'' else None)\<rparr>
      else \<lparr>err_email = emailValidation (edit_form_email form),
            err_currentPassword = None, err_newPassword = None, err_newPassword2 = None\<rparr>)"

text \<open>The setter calls of \<^verbatim>\<open>onSubmit\<close>: all four slots to \<^verbatim>\<open>null\<close>, then each truthy
  local into its slot.\<close>

definition edit_set_errors :: "edit_errors \<Rightarrow> edit_state \<Rightarrow> edit_state" where
  "edit_set_errors es st =
     st\<lparr>edit_emailError := (if truthy_str (err_email es) then err_email es else None),
        currentPasswordError :=
          (if truthy_str (err_currentPassword es) then err_currentPassword es else None),
        newPasswordError := (if truthy_str (err_newPassword es) then err_newPassword es else None),
        newPassword2Error :=
          (if truthy_str (err_newPassword2 es) then err_newPassword2 es else None)\<rparr>"

record account_update =
  upd_email :: string
  upd_phone :: string
  upd_firstName :: string
  upd_lastName :: string
  upd_currentPassword :: string
  upd_newPassword :: string

definition callAccountUpdateApi_request :: "account_update \<Rightarrow> request" where
  "callAccountUpdateApi_request u =
     \<lparr>path = ''/account'', http_method = ''PATCH'', headers = json_headers,
      body = JObj [(''email'', JStr (upd_email u)), (''phone'', JStr (upd_phone u)),
                   (''firstName'', JStr (upd_firstName u)), (''lastName'', JStr (upd_lastName u)),
                   (''currentPassword'', JStr (upd_currentPassword u)),
                   (''newPassword'', JStr (upd_newPassword u))]\<rparr>"


text \<open>The submit handler up to its \<^verbatim>\<open>await\<close>.\<close>

definition edit_onSubmit :: "edit_state \<Rightarrow> edit_form \<Rightarrow> edit_state \<times> effect list" where
  "edit_onSubmit st form =
     (let es = edit_local_errors form;
          st1 = edit_set_errors es st
      in if truthy_str (err_email es) \<or> truthy_str (err_currentPassword es) \<or>
            truthy_str (err_newPassword es) \<or> truthy_str (err_newPassword2 es)
         then (st1, [])
         else (st1\<lparr>saving := True\<rparr>,
               [Fetch (callAccountUpdateApi_request
                  \<lparr>upd_email = edit_email st, upd_phone = phone st,
                   upd_firstName = firstName st, upd_lastName = lastName st,
                   upd_currentPassword = input_value (currentPassword form),
                   upd_newPassword = input_value (newPassword form)\<rparr>)]))"



section \<open>TopProducts, the best-sellers section of the empty cart\<close>

text \<open>A number in a template literal: its decimal digits.\<close>

definition digit_char :: "nat \<Rightarrow> char" where
  "digit_char d = char_of (48 + d)"

fun decimal :: "nat \<Rightarrow> string" where
  "decimal n = (if n < 10 then [digit_char n] else decimal (n div 10) @ [digit_char (n mod 10)])"

declare decimal.simps [simp del]

text \<open>
  \<^verbatim>\<open>Response.ok\<close> as the Fetch standard sets it from the status: true for 200 to 299.
\<close>

definition status_ok :: "nat \<Rightarrow> bool" where
  "status_ok s = (200 \<le> s \<and> s \<le> 299)"

text \<open>
  What the component returns: \<^verbatim>\<open>null\<close>, the one text, or one card per product, each
  with its \<^verbatim>\<open>key\<close>.
\<close>

datatype rendered =
    RenderNull
  | NoProductsFound
  | ProductCards "(json_value option \<times> json_value) list"

text \<open>
  \<^verbatim>\<open>products.map((product) => <ProductCard product={product} key={product.id} />)\<close>:
  reading \<^verbatim>\<open>product.id\<close> throws on a \<^verbatim>\<open>null\<close> element.
\<close>

fun product_cards :: "json_value list \<Rightarrow> js_error + (json_value option \<times> json_value) list" where
  "product_cards [] = Inr []"
| "product_cards (product # ps) =
     (case get_prop product ''id'' of
        Inl e \<Rightarrow> Inl e
      | Inr key \<Rightarrow>
          (case product_cards ps of
             Inl e \<Rightarrow> Inl e
           | Inr cards \<Rightarrow> Inr ((key, product) # cards)))"

text \<open>
  \<^verbatim>\<open>TopProducts\<close> on the response \<^verbatim>\<open>fetchSync('/api/bestSellers')\<close> hands it. The body is
  typed \<^verbatim>\<open>Product[]\<close> but is whatever \<^verbatim>\<open>json()\<close> parsed: \<^verbatim>\<open>.length\<close> and \<^verbatim>\<open>.map\<close> are
  read from it as JavaScript reads them.
\<close>

definition TopProducts :: "response \<Rightarrow> (js_error + rendered) \<times> effect list" where
  "TopProducts response =
     (if \<not> ok response
      then (Inr RenderNull,
            [ConsoleError (''Unable to load top products '' @ url response @
                           '' returned a '' @ decimal (status response))])
      else (case json response of
              Inl e \<Rightarrow> (Inl e, [])
            | Inr products \<Rightarrow>
                (case products of
                   JArr ps \<Rightarrow>
                     (if length ps = 0 then Inr NoProductsFound
                      else (case product_cards ps of
                              Inl e \<Rightarrow> Inl e
                            | Inr cards \<Rightarrow> Inr (ProductCards cards)), [])
                 | JNull \<Rightarrow> (Inl TypeError, [])
                 | JStr s \<Rightarrow> (if length s = 0 then Inr NoProductsFound else Inl TypeError, [])
                 | JObj kvs \<Rightarrow>
                     (if map_of (rev kvs) ''length'' = Some (JNum 0) then Inr NoProductsFound
                      else Inl TypeError, [])
                 | _ \<Rightarrow> (Inl TypeError, []))))"

section \<open>The \<^verbatim>\<open>/account\<close> API route\<close>

record api_request =
  req_method :: string
  req_json :: "js_error + json_value"

datatype response_body = NoBody | TextBody string | JsonBody json_value

record api_response =
  resp_body :: response_body
  resp_status :: nat
  resp_headers :: "(string \<times> string) list"

text \<open>The \<^verbatim>\<open>customer\<close> object of the mutation's variables: each member is set or absent.\<close>

record customer =
  customer_email :: "json_value option"
  customer_phone :: "json_value option"
  customer_firstName :: "json_value option"
  customer_lastName :: "json_value option"
  customer_password :: "json_value option"

text \<open>\<^verbatim>\<open>if (x) customer.x = x\<close>: the member is set when the value is truthy.\<close>

definition set_if_truthy :: "json_value option \<Rightarrow> json_value option" where
  "set_if_truthy x = (if truthy_opt x then x else None)"

text \<open>
  \<^verbatim>\<open>api\<close>. The session is absent, or yields a \<^verbatim>\<open>customerAccessToken\<close> that may be
  undefined. \<open>queryShop\<close> is the framework's call to the storefront API, given the
  variables \<^verbatim>\<open>customer\<close> and \<^verbatim>\<open>customerAccessToken\<close>; \<open>getApiErrorMessage\<close> is the
  helper of \<^verbatim>\<open>~/lib/utils\<close> that reads an error message off its result. The second
  component lists the \<open>queryShop\<close> calls made.
\<close>

definition api ::
  "(customer \<times> string \<Rightarrow> 'r) \<Rightarrow> (string \<Rightarrow> 'r \<Rightarrow> string option) \<Rightarrow>
   api_request \<Rightarrow> string option option \<Rightarrow> (js_error + api_response) \<times> (customer \<times> string) list" where
  "api queryShop getApiErrorMessage request session =
     (if req_method request \<noteq> ''PATCH'' \<and> req_method request \<noteq> ''DELETE''
      then (Inr \<lparr>resp_body = NoBody, resp_status = 405,
                 resp_headers = [(''Allow'', ''PATCH,DELETE'')]\<rparr>, [])
      else (case session of
        None \<Rightarrow> (Inr \<lparr>resp_body = TextBody ''Session storage not available.'',
                       resp_status = 400, resp_headers = []\<rparr>, [])
      | Some token \<Rightarrow>
          (case (if truthy_str token then token else None) of
            None \<Rightarrow> (Inr \<lparr>resp_body = NoBody, resp_status = 401, resp_headers = []\<rparr>, [])
          | Some customerAccessToken \<Rightarrow>
          (case req_json request of
            Inl e \<Rightarrow> (Inl e, [])
          | Inr b \<Rightarrow>
              (case (get_prop b ''email'', get_prop b ''phone'', get_prop b ''firstName'',
                     get_prop b ''lastName'', get_prop b ''newPassword'') of
                 (Inr email', Inr phone', Inr firstName', Inr lastName', Inr newPassword') \<Rightarrow>
                   (let vars = (\<lparr>customer_email = set_if_truthy email',
                                  customer_phone = set_if_truthy phone',
                                  customer_firstName = set_if_truthy firstName',
                                  customer_lastName = set_if_truthy lastName',
                                  customer_password = set_if_truthy newPassword'\<rparr>,
                                customerAccessToken);
                        error = getApiErrorMessage ''customerUpdate'' (queryShop vars)
                    in (case (if truthy_str error then error else None) of
                          Some message \<Rightarrow>
                            (Inr \<lparr>resp_body = JsonBody (JObj [(''error'', JStr message)]),
                                  resp_status = 400, resp_headers = []\<rparr>, [vars])
                        | None \<Rightarrow>
                            (Inr \<lparr>resp_body = NoBody, resp_status = 200, resp_headers = []\<rparr>,
                             [vars])))
               | _ \<Rightarrow> (Inl TypeError, []))))))"

section \<open>Validation gates the network call\<close>

text \<open>
  Claim C1. On each of the three forms the submit handler issues its network call only
  when no validation error was computed for that submission: if the handler's effects
  hold a \<^verbatim>\<open>fetch\<close>, every error slot of the state it leaves is \<^verbatim>\<open>null\<close> (on the reset
  form \<^verbatim>\<open>hasError\<close> is false; on the edit form the four error locals are all absent).
  Read the other way round, a non-null validation error means the handler returned
  without calling the adapter.
\<close>

theorem network_call_only_without_validation_errors:
  "(Fetch r \<in> set (snd (login_onSubmit ls lf)) \<longrightarrow>
      login_emailError (fst (login_onSubmit ls lf)) = None \<and>
      login_passwordError (fst (login_onSubmit ls lf)) = None) \<and>
   (Fetch r' \<in> set (snd (reset_onSubmit props rs rf)) \<longrightarrow>
      \<not> fst (reset_passwordValidation rs rf) \<and>
      reset_passwordError (fst (reset_onSubmit props rs rf)) = None \<and>
      reset_passwordConfirmError (fst (reset_onSubmit props rs rf)) = None) \<and>
   (Fetch r'' \<in> set (snd (edit_onSubmit es ef)) \<longrightarrow>
      edit_local_errors ef =
        \<lparr>err_email = None, err_currentPassword = None, err_newPassword = None,
         err_newPassword2 = None\<rparr> \<and>
      edit_emailError (fst (edit_onSubmit es ef)) = None \<and>
      currentPasswordError (fst (edit_onSubmit es ef)) = None \<and>
      newPasswordError (fst (edit_onSubmit es ef)) = None \<and>
      newPassword2Error (fst (edit_onSubmit es ef)) = None)"
proof (intro conjI impI)
  assume "Fetch r \<in> set (snd (login_onSubmit ls lf))"
  then show "login_emailError (fst (login_onSubmit ls lf)) = None"
    and "login_passwordError (fst (login_onSubmit ls lf)) = None"
    by (auto simp add: login_onSubmit_def checkEmail_def checkPassword_start_def Let_def
        split: if_splits option.splits)
next
  assume f: "Fetch r' \<in> set (snd (reset_onSubmit props rs rf))"
  then show "\<not> fst (reset_passwordValidation rs rf)"
    by (auto simp add: reset_onSubmit_def split: prod.splits if_splits)
  with f show "reset_passwordError (fst (reset_onSubmit props rs rf)) = None"
    and "reset_passwordConfirmError (fst (reset_onSubmit props rs rf)) = None"
    by (auto simp add: reset_onSubmit_def reset_passwordValidation_def reset_check_match_def
        reset_check_confirm_def reset_check_password_def split: prod.splits if_splits)
next
  assume "Fetch r'' \<in> set (snd (edit_onSubmit es ef))"
  then have falsy: "\<not> truthy_str (err_email (edit_local_errors ef))"
      "\<not> truthy_str (err_currentPassword (edit_local_errors ef))"
      "\<not> truthy_str (err_newPassword (edit_local_errors ef))"
      "\<not> truthy_str (err_newPassword2 (edit_local_errors ef))"
    by (auto simp add: edit_onSubmit_def Let_def split: if_splits)
  then show "edit_local_errors ef =
        \<lparr>err_email = None, err_currentPassword = None, err_newPassword = None,
         err_newPassword2 = None\<rparr>"
    by (auto simp add: edit_local_errors_def emailValidation_def passwordValidation_def
        split: if_splits)
  from falsy show "edit_emailError (fst (edit_onSubmit es ef)) = None"
    and "currentPasswordError (fst (edit_onSubmit es ef)) = None"
    and "newPasswordError (fst (edit_onSubmit es ef)) = None"
    and "newPassword2Error (fst (edit_onSubmit es ef)) = None"
    by (simp_all add: edit_onSubmit_def Let_def edit_set_errors_def)
qed

text \<open>A valid submission of each form: the call is issued and the error slots are clear.\<close>

theorem network_call_witness:
  "Fetch (callLoginApi_request ''a@b.co'' ''hunter22'') \<in>
     set (snd (login_onSubmit
       \<lparr>hasSubmitError = False, showEmailField = False, login_email = ''a@b.co'',
        login_emailError = None, login_password = ''hunter22'', login_passwordError = None\<rparr>
       \<lparr>form_email = None, form_password = Some (password_input ''hunter22'')\<rparr>)) \<and>
   login_passwordError (fst (login_onSubmit
       \<lparr>hasSubmitError = False, showEmailField = False, login_email = ''a@b.co'',
        login_emailError = None, login_password = ''hunter22'', login_passwordError = None\<rparr>
       \<lparr>form_email = None, form_password = Some (password_input ''hunter22'')\<rparr>)) = None \<and>
   Fetch (callPasswordResetApi_request ''7'' ''tok'' ''hunter22'') \<in>
     set (snd (reset_onSubmit \<lparr>id_prop = ''7'', resetToken = ''tok''\<rparr>
       \<lparr>reset_submitError = None, reset_password = ''hunter22'', reset_passwordError = None,
        reset_passwordConfirm = ''hunter22'', reset_passwordConfirmError = None\<rparr>
       \<lparr>reset_form_password = password_input ''hunter22'',
        reset_form_passwordConfirm = password_input ''hunter22''\<rparr>)) \<and>
   reset_passwordConfirmError (fst (reset_onSubmit \<lparr>id_prop = ''7'', resetToken = ''tok''\<rparr>
       \<lparr>reset_submitError = None, reset_password = ''hunter22'', reset_passwordError = None,
        reset_passwordConfirm = ''hunter22'', reset_passwordConfirmError = None\<rparr>
       \<lparr>reset_form_password = password_input ''hunter22'',
        reset_form_passwordConfirm = password_input ''hunter22''\<rparr>)) = None \<and>
   Fetch (callAccountUpdateApi_request
       \<lparr>upd_email = ''a@b.co'', upd_phone = [], upd_firstName = ''Ann'', upd_lastName = ''Lee'',
        upd_currentPassword = ''hunter22'', upd_newPassword = ''hunter23''\<rparr>) \<in>
     set (snd (edit_onSubmit
       \<lparr>saving = False, firstName = ''Ann'', lastName = ''Lee'', phone = [],
        edit_email = ''a@b.co'', edit_emailError = None, currentPasswordError = None,
        newPasswordError = None, newPassword2Error = None, edit_submitError = None\<rparr>
       \<lparr>edit_form_email = email_input (\<lambda>s. True) ''a@b.co'',
        currentPassword = password_input ''hunter22'', newPassword = password_input ''hunter23'',
        newPassword2 = password_input ''hunter23''\<rparr>)) \<and>
   edit_local_errors
       \<lparr>edit_form_email = email_input (\<lambda>s. True) ''a@b.co'',
        currentPassword = password_input ''hunter22'', newPassword = password_input ''hunter23'',
        newPassword2 = password_input ''hunter23''\<rparr> =
     \<lparr>err_email = None, err_currentPassword = None, err_newPassword = None,
      err_newPassword2 = None\<rparr>"
proof -
  let ?ls = "\<lparr>hasSubmitError = False, showEmailField = False, login_email = ''a@b.co'',
        login_emailError = None, login_password = ''hunter22'', login_passwordError = None\<rparr>"
  let ?lf = "\<lparr>form_email = None, form_password = Some (password_input ''hunter22'')\<rparr>"
  let ?props = "\<lparr>id_prop = ''7'', resetToken = ''tok''\<rparr>"
  let ?rs = "\<lparr>reset_submitError = None, reset_password = ''hunter22'', reset_passwordError = None,
        reset_passwordConfirm = ''hunter22'', reset_passwordConfirmError = None\<rparr>"
  let ?rf = "\<lparr>reset_form_password = password_input ''hunter22'',
        reset_form_passwordConfirm = password_input ''hunter22''\<rparr>"
  let ?es = "\<lparr>saving = False, firstName = ''Ann'', lastName = ''Lee'', phone = [],
        edit_email = ''a@b.co'', edit_emailError = None, currentPasswordError = None,
        newPasswordError = None, newPassword2Error = None, edit_submitError = None\<rparr>"
  let ?ef = "\<lparr>edit_form_email = email_input (\<lambda>s. True) ''a@b.co'',
        currentPassword = password_input ''hunter22'', newPassword = password_input ''hunter23'',
        newPassword2 = password_input ''hunter23''\<rparr>"
  have l: "Fetch (callLoginApi_request ''a@b.co'' ''hunter22'') \<in> set (snd (login_onSubmit ?ls ?lf))"
    by (simp add: login_onSubmit_def checkPassword_start_def password_input_def
        constraint_validity_def)
  have r: "Fetch (callPasswordResetApi_request ''7'' ''tok'' ''hunter22'') \<in>
     set (snd (reset_onSubmit ?props ?rs ?rf))"
    by (simp add: reset_onSubmit_def reset_passwordValidation_def reset_check_match_def
        reset_check_confirm_def reset_check_password_def password_input_def
        constraint_validity_def)
  have e: "Fetch (callAccountUpdateApi_request
       \<lparr>upd_email = ''a@b.co'', upd_phone = [], upd_firstName = ''Ann'', upd_lastName = ''Lee'',
        upd_currentPassword = ''hunter22'', upd_newPassword = ''hunter23''\<rparr>) \<in>
     set (snd (edit_onSubmit ?es ?ef))"
    by (simp add: edit_onSubmit_def edit_local_errors_def emailValidation_def
        passwordValidation_def email_input_def password_input_def constraint_validity_def)
  from network_call_only_without_validation_errors
    [of "callLoginApi_request ''a@b.co'' ''hunter22''" ?ls ?lf
        "callPasswordResetApi_request ''7'' ''tok'' ''hunter22''" ?props ?rs ?rf
        "callAccountUpdateApi_request
       \<lparr>upd_email = ''a@b.co'', upd_phone = [], upd_firstName = ''Ann'', upd_lastName = ''Lee'',
        upd_currentPassword = ''hunter22'', upd_newPassword = ''hunter23''\<rparr>" ?es ?ef]
    l r e
  show ?thesis
    by blast
qed

section \<open>The account-details edit form with an empty current password\<close>

text \<open>
  Claim C2, as amended. When the \<^verbatim>\<open>currentPassword\<close> input is empty, no password-related
  error is computed or shown, whatever \<^verbatim>\<open>newPassword\<close> and \<^verbatim>\<open>newPassword2\<close> hold; the
  request, sent when the email input is valid, carries \<^verbatim>\<open>currentPassword\<close> as the empty
  string and \<^verbatim>\<open>newPassword\<close> exactly as the \<^verbatim>\<open>newPassword\<close> input holds it.
\<close>

theorem edit_empty_current_password_skips_password_checks:
  "input_value (currentPassword form) = [] \<Longrightarrow>
     err_currentPassword (edit_local_errors form) = None \<and>
     err_newPassword (edit_local_errors form) = None \<and>
     err_newPassword2 (edit_local_errors form) = None \<and>
     currentPasswordError (fst (edit_onSubmit st form)) = None \<and>
     newPasswordError (fst (edit_onSubmit st form)) = None \<and>
     newPassword2Error (fst (edit_onSubmit st form)) = None \<and>
     snd (edit_onSubmit st form) =
       (if valid (validity (edit_form_email form))
        then [Fetch (callAccountUpdateApi_request
                \<lparr>upd_email = edit_email st, upd_phone = phone st,
                 upd_firstName = firstName st, upd_lastName = lastName st,
                 upd_currentPassword = [],
                 upd_newPassword = input_value (newPassword form)\<rparr>)]
        else [])"
  by (simp add: edit_onSubmit_def edit_local_errors_def edit_set_errors_def
      emailValidation_def Let_def)

theorem edit_empty_current_password_witness:
  "input_value (currentPassword
     (edit_form_of (\<lambda>s. True)
       \<lparr>saving = False, firstName = ''Ann'', lastName = ''Lee'', phone = [],
        edit_email = ''a@b.co'', edit_emailError = None, currentPasswordError = None,
        newPasswordError = None, newPassword2Error = None, edit_submitError = None\<rparr>
       [] [] [])) = [] \<and>
   edit_onSubmit
     \<lparr>saving = False, firstName = ''Ann'', lastName = ''Lee'', phone = [],
      edit_email = ''a@b.co'', edit_emailError = None, currentPasswordError = None,
      newPasswordError = None, newPassword2Error = None, edit_submitError = None\<rparr>
     (edit_form_of (\<lambda>s. True)
       \<lparr>saving = False, firstName = ''Ann'', lastName = ''Lee'', phone = [],
        edit_email = ''a@b.co'', edit_emailError = None, currentPasswordError = None,
        newPasswordError = None, newPassword2Error = None, edit_submitError = None\<rparr>
       [] [] []) =
     (\<lparr>saving = True, firstName = ''Ann'', lastName = ''Lee'', phone = [],
       edit_email = ''a@b.co'', edit_emailError = None, currentPasswordError = None,
       newPasswordError = None, newPassword2Error = None, edit_submitError = None\<rparr>,
      [Fetch \<lparr>path = ''/account'', http_method = ''PATCH'', headers = json_headers,
              body = JObj [(''email'', JStr ''a@b.co''), (''phone'', JStr []),
                           (''firstName'', JStr ''Ann''), (''lastName'', JStr ''Lee''),
                           (''currentPassword'', JStr []), (''newPassword'', JStr [])]\<rparr>])"
proof -
  let ?st = "\<lparr>saving = False, firstName = ''Ann'', lastName = ''Lee'', phone = [],
        edit_email = ''a@b.co'', edit_emailError = None, currentPasswordError = None,
        newPasswordError = None, newPassword2Error = None, edit_submitError = None\<rparr>"
  let ?form = "edit_form_of (\<lambda>s. True) ?st [] [] []"
  have h: "input_value (currentPassword ?form) = []"
    by (simp add: edit_form_of_def password_input_def)
  have v: "valid (validity (edit_form_email ?form))"
    by (simp add: edit_form_of_def email_input_def constraint_validity_def)
  have n: "input_value (newPassword ?form) = []"
    by (simp add: edit_form_of_def password_input_def)
  have s: "fst (edit_onSubmit ?st ?form) = ?st\<lparr>saving := True\<rparr>"
    by (simp add: edit_onSubmit_def edit_local_errors_def edit_set_errors_def
        emailValidation_def Let_def h v)
  from edit_empty_current_password_skips_password_checks [OF h, of ?st] h v n s
  show ?thesis
    by (simp add: prod_eq_iff callAccountUpdateApi_request_def)
qed

text \<open>
  Claim C2 as stated fails in its second half. The spec counts a password change as
  requested only when the current password has a value; here it is empty, the new
  password input holds a value and the confirmation was never entered, and the request
  carries that new password.
\<close>

theorem edit_unrequested_password_sent_counterexample:
  "input_value (currentPassword
     (edit_form_of (\<lambda>s. True)
       \<lparr>saving = False, firstName = ''Ann'', lastName = ''Lee'', phone = [],
        edit_email = ''a@b.co'', edit_emailError = None, currentPasswordError = None,
        newPasswordError = None, newPassword2Error = None, edit_submitError = None\<rparr>
       [] ''newsecret1'' [])) = [] \<and>
   snd (edit_onSubmit
     \<lparr>saving = False, firstName = ''Ann'', lastName = ''Lee'', phone = [],
      edit_email = ''a@b.co'', edit_emailError = None, currentPasswordError = None,
      newPasswordError = None, newPassword2Error = None, edit_submitError = None\<rparr>
     (edit_form_of (\<lambda>s. True)
       \<lparr>saving = False, firstName = ''Ann'', lastName = ''Lee'', phone = [],
        edit_email = ''a@b.co'', edit_emailError = None, currentPasswordError = None,
        newPasswordError = None, newPassword2Error = None, edit_submitError = None\<rparr>
       [] ''newsecret1'' [])) =
     [Fetch \<lparr>path = ''/account'', http_method = ''PATCH'', headers = json_headers,
             body = JObj [(''email'', JStr ''a@b.co''), (''phone'', JStr []),
                          (''firstName'', JStr ''Ann''), (''lastName'', JStr ''Lee''),
                          (''currentPassword'', JStr []),
                          (''newPassword'', JStr ''newsecret1'')]\<rparr>]"
  by (simp add: edit_onSubmit_def edit_local_errors_def edit_set_errors_def
      emailValidation_def edit_form_of_def email_input_def password_input_def
      constraint_validity_def callAccountUpdateApi_request_def Let_def)

section \<open>The busy flag\<close>




section \<open>The remote call adapters\<close>




section \<open>The login form: failure and success of the authentication call\<close>

text \<open>
  Claim C5, as amended. When the authentication call returns a response whose
  \<^verbatim>\<open>error\<close> field is truthy (for a string: not empty), the form goes back to the
  email-entry stage with email, password and both errors cleared, and the sign-in
  failure banner is shown (\<^verbatim>\<open>hasSubmitError\<close>); nothing else happens.
\<close>

theorem login_error_response_resets_form:
  "callLoginApi_result outcome = Inr response \<Longrightarrow>
   get_prop response ''error'' = Inr (Some v) \<Longrightarrow> truthy v \<Longrightarrow>
   checkPassword_resume st outcome =
     (\<lparr>hasSubmitError = True, showEmailField = True, login_email = [],
       login_emailError = None, login_password = [], login_passwordError = None\<rparr>, [])"
  by (simp add: checkPassword_resume_def resetForm_def)

theorem login_error_response_witness:
  "callLoginApi_result
     (Inr \<lparr>ok = False, url = ''/account/login'', status = 401,
           json = Inr (JObj [(''error'', JStr ''Unidentified customer'')])\<rparr>) =
     Inr (JObj [(''error'', JStr ''Unidentified customer'')]) \<and>
   get_prop (JObj [(''error'', JStr ''Unidentified customer'')]) ''error'' =
     Inr (Some (JStr ''Unidentified customer'')) \<and>
   truthy (JStr ''Unidentified customer'') \<and>
   checkPassword_resume
     \<lparr>hasSubmitError = False, showEmailField = False, login_email = ''a@b.co'',
      login_emailError = None, login_password = ''hunter22'', login_passwordError = None\<rparr>
     (Inr \<lparr>ok = False, url = ''/account/login'', status = 401,
           json = Inr (JObj [(''error'', JStr ''Unidentified customer'')])\<rparr>) =
     (\<lparr>hasSubmitError = True, showEmailField = True, login_email = [],
       login_emailError = None, login_password = [], login_passwordError = None\<rparr>, [])"
proof -
  have r: "callLoginApi_result
     (Inr \<lparr>ok = False, url = ''/account/login'', status = 401,
           json = Inr (JObj [(''error'', JStr ''Unidentified customer'')])\<rparr>) =
     Inr (JObj [(''error'', JStr ''Unidentified customer'')])"
    by (simp add: callLoginApi_result_def)
  have g: "get_prop (JObj [(''error'', JStr ''Unidentified customer'')]) ''error'' =
     Inr (Some (JStr ''Unidentified customer''))"
    by simp
  have t: "truthy (JStr ''Unidentified customer'')"
    by simp
  from login_error_response_resets_form [OF r g t] r g t show ?thesis
    by blast
qed

text \<open>
  Claim C5 as stated fails for a response that contains an \<^verbatim>\<open>error\<close> field whose value
  is falsy: on \<^verbatim>\<open>{"error": ""}\<close> the form is left as it is and the handler navigates to
  \<^verbatim>\<open>/account\<close>.
\<close>

theorem login_empty_error_counterexample:
  "get_prop (JObj [(''error'', JStr [])]) ''error'' = Inr (Some (JStr [])) \<and>
   checkPassword_resume
     \<lparr>hasSubmitError = False, showEmailField = False, login_email = ''a@b.co'',
      login_emailError = None, login_password = ''hunter22'', login_passwordError = None\<rparr>
     (Inr \<lparr>ok = False, url = ''/account/login'', status = 401,
           json = Inr (JObj [(''error'', JStr [])])\<rparr>) =
     (\<lparr>hasSubmitError = False, showEmailField = False, login_email = ''a@b.co'',
       login_emailError = None, login_password = ''hunter22'', login_passwordError = None\<rparr>,
      [Navigate ''/account''])"
  by (simp add: checkPassword_resume_def callLoginApi_result_def)

text \<open>
  Claim C6. In the password stage, with a password of at least 8 characters in the
  rendered password input, submitting issues exactly one request: a \<^verbatim>\<open>POST\<close> to
  \<^verbatim>\<open>/account/login\<close> whose body is the entered email and password; and when the adapter's
  answer is \<^verbatim>\<open>{}\<close> the handler navigates to \<^verbatim>\<open>/account\<close>, leaving the state as it is.
\<close>

theorem login_valid_submission:
  "\<not> showEmailField st \<Longrightarrow> 8 \<le> length (login_password st) \<Longrightarrow>
   snd (login_onSubmit st (login_form_of is_email st)) =
     [Fetch \<lparr>path = ''/account/login'', http_method = ''POST'', headers = json_headers,
             body = JObj [(''email'', JStr (login_email st)),
                          (''password'', JStr (login_password st))]\<rparr>] \<and>
   (callLoginApi_result outcome = Inr (JObj []) \<longrightarrow>
      checkPassword_resume st' outcome = (st', [Navigate ''/account'']))"
  by (auto simp add: login_onSubmit_def login_form_of_def checkPassword_start_def
      password_input_def constraint_validity_def callLoginApi_request_def
      checkPassword_resume_def Let_def)

theorem login_valid_submission_witness:
  "\<not> showEmailField \<lparr>hasSubmitError = False, showEmailField = False, login_email = ''a@b.co'',
      login_emailError = None, login_password = ''hunter22'', login_passwordError = None\<rparr> \<and>
   8 \<le> length (login_password \<lparr>hasSubmitError = False, showEmailField = False, login_email = ''a@b.co'',
      login_emailError = None, login_password = ''hunter22'', login_passwordError = None\<rparr>) \<and>
   snd (login_onSubmit \<lparr>hasSubmitError = False, showEmailField = False, login_email = ''a@b.co'',
      login_emailError = None, login_password = ''hunter22'', login_passwordError = None\<rparr>
      (login_form_of (\<lambda>s. True) \<lparr>hasSubmitError = False, showEmailField = False, login_email = ''a@b.co'',
      login_emailError = None, login_password = ''hunter22'', login_passwordError = None\<rparr>)) =
     [Fetch \<lparr>path = ''/account/login'', http_method = ''POST'', headers = json_headers,
             body = JObj [(''email'', JStr ''a@b.co''), (''password'', JStr ''hunter22'')]\<rparr>] \<and>
   callLoginApi_result (Inr \<lparr>ok = True, url = ''/account/login'', status = 200,
                              json = Inl (JsError ''SyntaxError'')\<rparr>) = Inr (JObj []) \<and>
   checkPassword_resume \<lparr>hasSubmitError = False, showEmailField = False, login_email = ''a@b.co'',
      login_emailError = None, login_password = ''hunter22'', login_passwordError = None\<rparr>
      (Inr \<lparr>ok = True, url = ''/account/login'', status = 200,
                              json = Inl (JsError ''SyntaxError'')\<rparr>) =
    (\<lparr>hasSubmitError = False, showEmailField = False, login_email = ''a@b.co'',
      login_emailError = None, login_password = ''hunter22'', login_passwordError = None\<rparr>,
     [Navigate ''/account''])"
proof -
  let ?st = "\<lparr>hasSubmitError = False, showEmailField = False, login_email = ''a@b.co'',
      login_emailError = None, login_password = ''hunter22'', login_passwordError = None\<rparr>"
  let ?out = "Inr \<lparr>ok = True, url = ''/account/login'', status = 200,
                              json = Inl (JsError ''SyntaxError'')\<rparr> :: fetch_outcome"
  have a: "\<not> showEmailField ?st" by simp
  have b: "8 \<le> length (login_password ?st)" by simp
  have c: "callLoginApi_result ?out = Inr (JObj [])" by (simp add: callLoginApi_result_def)
  from login_valid_submission [OF a b, of "\<lambda>s. True" ?out ?st] a b c show ?thesis
    by simp
qed

section \<open>Password confirmation\<close>

text \<open>
  Claim C7, as amended. On the account-details edit form, when the current password has
  a value and the two new passwords differ, the submission is blocked with "The two
  passwords entered did not match" and no network call; on the reset form, whenever the
  two passwords differ, it is blocked with "The two password entered did not match." and
  no network call.
\<close>

theorem mismatch_blocks_submission:
  "(input_value (currentPassword ef) \<noteq> [] \<and>
    input_value (newPassword ef) \<noteq> input_value (newPassword2 ef) \<longrightarrow>
      snd (edit_onSubmit es ef) = [] \<and>
      newPassword2Error (fst (edit_onSubmit es ef)) =
        Some ''The two passwords entered did not match'') \<and>
   (reset_password rs \<noteq> reset_passwordConfirm rs \<longrightarrow>
      snd (reset_onSubmit props rs rf) = [] \<and>
      reset_passwordConfirmError (fst (reset_onSubmit props rs rf)) =
        Some ''The two password entered did not match.'')"
  by (simp add: edit_onSubmit_def edit_local_errors_def edit_set_errors_def Let_def
      reset_onSubmit_def reset_passwordValidation_def reset_check_match_def)

theorem mismatch_blocks_submission_witness:
  "input_value (currentPassword
      \<lparr>edit_form_email = email_input (\<lambda>s. True) ''a@b.co'',
       currentPassword = password_input ''hunter22'', newPassword = password_input ''hunter23'',
       newPassword2 = password_input ''hunter24''\<rparr>) \<noteq> [] \<and>
   snd (edit_onSubmit
      \<lparr>saving = False, firstName = ''Ann'', lastName = ''Lee'', phone = [],
       edit_email = ''a@b.co'', edit_emailError = None, currentPasswordError = None,
       newPasswordError = None, newPassword2Error = None, edit_submitError = None\<rparr>
      \<lparr>edit_form_email = email_input (\<lambda>s. True) ''a@b.co'',
       currentPassword = password_input ''hunter22'', newPassword = password_input ''hunter23'',
       newPassword2 = password_input ''hunter24''\<rparr>) = [] \<and>
   reset_onSubmit \<lparr>id_prop = ''7'', resetToken = ''tok''\<rparr>
      \<lparr>reset_submitError = None, reset_password = ''hunter22'', reset_passwordError = None,
       reset_passwordConfirm = ''hunter23'', reset_passwordConfirmError = None\<rparr>
      \<lparr>reset_form_password = password_input ''hunter22'',
       reset_form_passwordConfirm = password_input ''hunter23''\<rparr> =
     (\<lparr>reset_submitError = None, reset_password = ''hunter22'', reset_passwordError = None,
       reset_passwordConfirm = ''hunter23'',
       reset_passwordConfirmError = Some ''The two password entered did not match.''\<rparr>, [])"
proof -
  let ?ef = "\<lparr>edit_form_email = email_input (\<lambda>s. True) ''a@b.co'',
       currentPassword = password_input ''hunter22'', newPassword = password_input ''hunter23'',
       newPassword2 = password_input ''hunter24''\<rparr>"
  let ?es = "\<lparr>saving = False, firstName = ''Ann'', lastName = ''Lee'', phone = [],
       edit_email = ''a@b.co'', edit_emailError = None, currentPasswordError = None,
       newPasswordError = None, newPassword2Error = None, edit_submitError = None\<rparr>"
  let ?props = "\<lparr>id_prop = ''7'', resetToken = ''tok''\<rparr>"
  let ?rs = "\<lparr>reset_submitError = None, reset_password = ''hunter22'', reset_passwordError = None,
       reset_passwordConfirm = ''hunter23'', reset_passwordConfirmError = None\<rparr>"
  let ?rf = "\<lparr>reset_form_password = password_input ''hunter22'',
       reset_form_passwordConfirm = password_input ''hunter23''\<rparr>"
  have a: "input_value (currentPassword ?ef) \<noteq> [] \<and>
      input_value (newPassword ?ef) \<noteq> input_value (newPassword2 ?ef)"
    by (simp add: password_input_def)
  have b: "reset_password ?rs \<noteq> reset_passwordConfirm ?rs"
    by simp
  have c: "fst (reset_onSubmit ?props ?rs ?rf) =
      ?rs\<lparr>reset_passwordConfirmError := Some ''The two password entered did not match.''\<rparr>"
    by (simp add: reset_onSubmit_def reset_passwordValidation_def reset_check_match_def
        reset_check_confirm_def reset_check_password_def password_input_def
        constraint_validity_def)
  from mismatch_blocks_submission [of ?ef ?es ?rs ?props ?rf] a b c show ?thesis
    by (simp add: prod_eq_iff)
qed

text \<open>
  Claim C7 as stated fails on the edit form when the current password is empty: the two
  new passwords differ, yet no mismatch message is set and the call is made.
\<close>

theorem edit_mismatch_unchecked_counterexample:
  "input_value (newPassword
      \<lparr>edit_form_email = email_input (\<lambda>s. True) ''a@b.co'',
       currentPassword = password_input [], newPassword = password_input ''hunter23'',
       newPassword2 = password_input ''hunter24''\<rparr>) \<noteq>
   input_value (newPassword2
      \<lparr>edit_form_email = email_input (\<lambda>s. True) ''a@b.co'',
       currentPassword = password_input [], newPassword = password_input ''hunter23'',
       newPassword2 = password_input ''hunter24''\<rparr>) \<and>
   edit_onSubmit
      \<lparr>saving = False, firstName = ''Ann'', lastName = ''Lee'', phone = [],
       edit_email = ''a@b.co'', edit_emailError = None, currentPasswordError = None,
       newPasswordError = None, newPassword2Error = None, edit_submitError = None\<rparr>
      \<lparr>edit_form_email = email_input (\<lambda>s. True) ''a@b.co'',
       currentPassword = password_input [], newPassword = password_input ''hunter23'',
       newPassword2 = password_input ''hunter24''\<rparr> =
     (\<lparr>saving = True, firstName = ''Ann'', lastName = ''Lee'', phone = [],
       edit_email = ''a@b.co'', edit_emailError = None, currentPasswordError = None,
       newPasswordError = None, newPassword2Error = None, edit_submitError = None\<rparr>,
      [Fetch (callAccountUpdateApi_request
         \<lparr>upd_email = ''a@b.co'', upd_phone = [], upd_firstName = ''Ann'', upd_lastName = ''Lee'',
          upd_currentPassword = [], upd_newPassword = ''hunter23''\<rparr>)])"
  by (simp add: edit_onSubmit_def edit_local_errors_def edit_set_errors_def
      emailValidation_def email_input_def password_input_def
      constraint_validity_def Let_def)

text \<open>
  Claim C10, as amended. In the reset form's validation, the message set for an invalid
  \<^verbatim>\<open>passwordConfirm\<close> input is picked by the \<^verbatim>\<open>valueMissing\<close> of the primary password
  input, and it is the message left in the slot when the two state values are equal.
  When they differ the mismatch message replaces it. So for a rendered form whose
  confirmation is empty and whose password is not, the validity branch picks "Passwords
  must be at least 6 characters" and the slot ends up holding "The two password entered
  did not match.".
\<close>

theorem reset_confirm_message:
  "(\<not> valid (validity (reset_form_passwordConfirm form)) \<longrightarrow>
      reset_passwordConfirmError (snd (reset_check_confirm form hs)) =
        Some (if valueMissing (validity (reset_form_password form))
              then ''Please re-enter a password''
              else ''Passwords must be at least 6 characters'')) \<and>
   (\<not> valid (validity (reset_form_passwordConfirm form)) \<and>
    reset_password st = reset_passwordConfirm st \<longrightarrow>
      reset_passwordConfirmError (snd (reset_passwordValidation st form)) =
        Some (if valueMissing (validity (reset_form_password form))
              then ''Please re-enter a password''
              else ''Passwords must be at least 6 characters'')) \<and>
   (reset_password st' \<noteq> reset_passwordConfirm st' \<longrightarrow>
      reset_passwordConfirmError (snd (reset_passwordValidation st' form')) =
        Some ''The two password entered did not match.'') \<and>
   (reset_passwordConfirm st' = [] \<and> reset_password st' \<noteq> [] \<longrightarrow>
      valueMissing (validity (reset_form_passwordConfirm (reset_form_of st'))) \<and>
      \<not> valueMissing (validity (reset_form_password (reset_form_of st'))) \<and>
      reset_passwordConfirmError (snd (reset_check_confirm (reset_form_of st') hs')) =
        Some ''Passwords must be at least 6 characters'' \<and>
      reset_passwordConfirmError (snd (reset_passwordValidation st' (reset_form_of st'))) =
        Some ''The two password entered did not match.'')"
  by (auto simp add: reset_check_confirm_def reset_passwordValidation_def reset_check_match_def
      reset_form_of_def password_input_def constraint_validity_def)

text \<open>
  Two renderings of the form: both fields \<^verbatim>\<open>abc\<close> (too short, equal), and the password
  filled in with the confirmation left empty.
\<close>

theorem reset_confirm_message_witness:
  "\<not> valid (validity (reset_form_passwordConfirm (reset_form_of
       \<lparr>reset_submitError = None, reset_password = ''abc'', reset_passwordError = None,
        reset_passwordConfirm = ''abc'', reset_passwordConfirmError = None\<rparr>))) \<and>
   reset_passwordConfirmError (snd (reset_passwordValidation
       \<lparr>reset_submitError = None, reset_password = ''abc'', reset_passwordError = None,
        reset_passwordConfirm = ''abc'', reset_passwordConfirmError = None\<rparr>
       (reset_form_of
         \<lparr>reset_submitError = None, reset_password = ''abc'', reset_passwordError = None,
          reset_passwordConfirm = ''abc'', reset_passwordConfirmError = None\<rparr>))) =
     Some ''Passwords must be at least 6 characters'' \<and>
   reset_passwordConfirm
       \<lparr>reset_submitError = None, reset_password = ''hunter22'', reset_passwordError = None,
        reset_passwordConfirm = [], reset_passwordConfirmError = None\<rparr> = [] \<and>
   reset_password
       \<lparr>reset_submitError = None, reset_password = ''hunter22'', reset_passwordError = None,
        reset_passwordConfirm = [], reset_passwordConfirmError = None\<rparr> \<noteq> [] \<and>
   reset_passwordConfirmError (snd (reset_check_confirm (reset_form_of
       \<lparr>reset_submitError = None, reset_password = ''hunter22'', reset_passwordError = None,
        reset_passwordConfirm = [], reset_passwordConfirmError = None\<rparr>)
       (False, \<lparr>reset_submitError = None, reset_password = ''hunter22'',
                reset_passwordError = None, reset_passwordConfirm = [],
                reset_passwordConfirmError = None\<rparr>))) =
     Some ''Passwords must be at least 6 characters'' \<and>
   reset_passwordConfirmError (snd (reset_passwordValidation
       \<lparr>reset_submitError = None, reset_password = ''hunter22'', reset_passwordError = None,
        reset_passwordConfirm = [], reset_passwordConfirmError = None\<rparr>
       (reset_form_of
         \<lparr>reset_submitError = None, reset_password = ''hunter22'', reset_passwordError = None,
          reset_passwordConfirm = [], reset_passwordConfirmError = None\<rparr>))) =
     Some ''The two password entered did not match.''"
proof -
  let ?eq = "\<lparr>reset_submitError = None, reset_password = ''abc'', reset_passwordError = None,
        reset_passwordConfirm = ''abc'', reset_passwordConfirmError = None\<rparr>"
  let ?ne = "\<lparr>reset_submitError = None, reset_password = ''hunter22'', reset_passwordError = None,
        reset_passwordConfirm = [], reset_passwordConfirmError = None\<rparr>"
  have a: "\<not> valid (validity (reset_form_passwordConfirm (reset_form_of ?eq)))"
    by (simp add: reset_form_of_def password_input_def constraint_validity_def)
  have b: "reset_password ?eq = reset_passwordConfirm ?eq"
    by simp
  have m: "\<not> valueMissing (validity (reset_form_password (reset_form_of ?eq)))"
    by (simp add: reset_form_of_def password_input_def constraint_validity_def)
  have c: "reset_passwordConfirm ?ne = [] \<and> reset_password ?ne \<noteq> []"
    by simp
  from reset_confirm_message
    [of "reset_form_of ?eq" "(False, ?eq)" ?eq ?ne "reset_form_of ?ne" "(False, ?ne)"]
    a b m c
  show ?thesis
    by simp
qed

text \<open>
  Claim C10 as stated fails on the message the form ends up with: with the password
  filled in and the confirmation empty, the confirmation's error is the mismatch
  message, and nothing is sent.
\<close>

theorem reset_confirm_overwritten_counterexample:
  "valueMissing (validity (reset_form_passwordConfirm (reset_form_of
      \<lparr>reset_submitError = None, reset_password = ''hunter22'', reset_passwordError = None,
       reset_passwordConfirm = [], reset_passwordConfirmError = None\<rparr>))) \<and>
   input_value (reset_form_password (reset_form_of
      \<lparr>reset_submitError = None, reset_password = ''hunter22'', reset_passwordError = None,
       reset_passwordConfirm = [], reset_passwordConfirmError = None\<rparr>)) \<noteq> [] \<and>
   reset_onSubmit \<lparr>id_prop = ''7'', resetToken = ''tok''\<rparr>
      \<lparr>reset_submitError = None, reset_password = ''hunter22'', reset_passwordError = None,
       reset_passwordConfirm = [], reset_passwordConfirmError = None\<rparr>
      (reset_form_of
        \<lparr>reset_submitError = None, reset_password = ''hunter22'', reset_passwordError = None,
         reset_passwordConfirm = [], reset_passwordConfirmError = None\<rparr>) =
     (\<lparr>reset_submitError = None, reset_password = ''hunter22'', reset_passwordError = None,
       reset_passwordConfirm = [],
       reset_passwordConfirmError = Some ''The two password entered did not match.''\<rparr>, [])"
  by (simp add: reset_onSubmit_def reset_passwordValidation_def reset_check_match_def
      reset_check_confirm_def reset_check_password_def reset_form_of_def password_input_def
      constraint_validity_def)

section \<open>The best-sellers section on a failed fetch\<close>

text \<open>
  Claim C8, as amended. When the response of \<^verbatim>\<open>GET /api/bestSellers\<close> is not a success,
  that is \<^verbatim>\<open>response.ok\<close> is false (a status outside 200 to 299), \<^verbatim>\<open>TopProducts\<close> renders
  nothing (\<^verbatim>\<open>null\<close>: no cards, no banner, no "No products found." text) and logs exactly
  one error, whose text carries the response's URL and its status code.
\<close>

theorem TopProducts_failure_logs_once_renders_nothing:
  "\<not> ok response \<Longrightarrow>
     TopProducts response =
       (Inr RenderNull,
        [ConsoleError (''Unable to load top products '' @ url response @
                       '' returned a '' @ decimal (status response))])"
  by (simp add: TopProducts_def)

theorem TopProducts_failure_witness:
  "\<not> ok \<lparr>ok = False, url = ''/api/bestSellers'', status = 500,
          json = Inl (JsError ''Unexpected end of JSON input'')\<rparr> \<and>
   TopProducts \<lparr>ok = False, url = ''/api/bestSellers'', status = 500,
                json = Inl (JsError ''Unexpected end of JSON input'')\<rparr> =
     (Inr RenderNull,
      [ConsoleError ''Unable to load top products /api/bestSellers returned a 500''])"
proof -
  have d: "decimal 500 = ''500''"
    by code_simp
  show ?thesis
    using TopProducts_failure_logs_once_renders_nothing
      [of "\<lparr>ok = False, url = ''/api/bestSellers'', status = 500,
             json = Inl (JsError ''Unexpected end of JSON input'')\<rparr>"]
    by (simp add: d)
qed

text \<open>
  Claim C8 as stated fails for a status that is not 200 and still a success: a 201
  carrying one product is rendered as a card and nothing is logged.
\<close>

theorem TopProducts_non_200_success_counterexample:
  "status \<lparr>ok = True, url = ''/api/bestSellers'', status = 201,
           json = Inr (JArr [JObj [(''id'', JStr ''p1'')]])\<rparr> \<noteq> 200 \<and>
   ok \<lparr>ok = True, url = ''/api/bestSellers'', status = 201,
       json = Inr (JArr [JObj [(''id'', JStr ''p1'')]])\<rparr> = status_ok 201 \<and>
   TopProducts \<lparr>ok = True, url = ''/api/bestSellers'', status = 201,
                json = Inr (JArr [JObj [(''id'', JStr ''p1'')]])\<rparr> =
     (Inr (ProductCards [(Some (JStr ''p1''), JObj [(''id'', JStr ''p1'')])]), [])"
  by (simp add: TopProducts_def status_ok_def)

section \<open>The \<^verbatim>\<open>/account\<close> route builds the mutation's customer\<close>

lemma set_if_truthy_not_empty: "set_if_truthy x \<noteq> Some (JStr [])"
  by (cases x) (auto simp add: set_if_truthy_def)

text \<open>
  The route calls \<open>queryShop\<close> at most once, and only past its three guards, with the
  customer built from the five members read off the body.
\<close>

lemma api_calls:
  "snd (api queryShop getApiErrorMessage request session) = calls \<Longrightarrow>
   calls = [] \<or>
   (\<exists>b e p f l n tok. req_json request = Inr b \<and> session = Some (Some tok) \<and> tok \<noteq> [] \<and>
      (req_method request = ''PATCH'' \<or> req_method request = ''DELETE'') \<and>
      get_prop b ''email'' = Inr e \<and> get_prop b ''phone'' = Inr p \<and>
      get_prop b ''firstName'' = Inr f \<and> get_prop b ''lastName'' = Inr l \<and>
      get_prop b ''newPassword'' = Inr n \<and>
      calls = [(\<lparr>customer_email = set_if_truthy e, customer_phone = set_if_truthy p,
                 customer_firstName = set_if_truthy f, customer_lastName = set_if_truthy l,
                 customer_password = set_if_truthy n\<rparr>, tok)])"
  unfolding api_def Let_def
  by (cases session; cases "req_json request")
     (auto split: if_splits option.splits sum.splits)

text \<open>
  Claim C9. Whatever the request, the customer of every \<^verbatim>\<open>customerUpdate\<close> call the
  route makes holds, for each of \<^verbatim>\<open>email\<close>, \<^verbatim>\<open>phone\<close>, \<^verbatim>\<open>firstName\<close>, \<^verbatim>\<open>lastName\<close> and
  \<^verbatim>\<open>newPassword\<close> (sent as \<^verbatim>\<open>password\<close>), the body's value when that value is truthy and
  no member at all when it is empty or otherwise falsy; so no member of the customer is
  ever the empty string.
\<close>

theorem api_customer_omits_falsy_fields:
  "(c, tok) \<in> set (snd (api queryShop getApiErrorMessage request session)) \<Longrightarrow>
   \<exists>b e p f l n.
     req_json request = Inr b \<and>
     get_prop b ''email'' = Inr e \<and> get_prop b ''phone'' = Inr p \<and>
     get_prop b ''firstName'' = Inr f \<and> get_prop b ''lastName'' = Inr l \<and>
     get_prop b ''newPassword'' = Inr n \<and>
     customer_email c = (if truthy_opt e then e else None) \<and>
     customer_phone c = (if truthy_opt p then p else None) \<and>
     customer_firstName c = (if truthy_opt f then f else None) \<and>
     customer_lastName c = (if truthy_opt l then l else None) \<and>
     customer_password c = (if truthy_opt n then n else None) \<and>
     customer_email c \<noteq> Some (JStr []) \<and> customer_phone c \<noteq> Some (JStr []) \<and>
     customer_firstName c \<noteq> Some (JStr []) \<and> customer_lastName c \<noteq> Some (JStr []) \<and>
     customer_password c \<noteq> Some (JStr [])"
proof -
  assume mem: "(c, tok) \<in> set (snd (api queryShop getApiErrorMessage request session))"
  from api_calls [OF refl, of queryShop getApiErrorMessage request session] mem
  obtain b e p f l n t where
    b: "req_json request = Inr b" and
    g: "get_prop b ''email'' = Inr e" "get_prop b ''phone'' = Inr p"
       "get_prop b ''firstName'' = Inr f" "get_prop b ''lastName'' = Inr l"
       "get_prop b ''newPassword'' = Inr n" and
    calls: "snd (api queryShop getApiErrorMessage request session) =
       [(\<lparr>customer_email = set_if_truthy e, customer_phone = set_if_truthy p,
          customer_firstName = set_if_truthy f, customer_lastName = set_if_truthy l,
          customer_password = set_if_truthy n\<rparr>, t)]"
    by auto
  from mem calls have c: "c = \<lparr>customer_email = set_if_truthy e, customer_phone = set_if_truthy p,
          customer_firstName = set_if_truthy f, customer_lastName = set_if_truthy l,
          customer_password = set_if_truthy n\<rparr>"
    by simp
  have fields: "customer_email c = (if truthy_opt e then e else None)"
      "customer_phone c = (if truthy_opt p then p else None)"
      "customer_firstName c = (if truthy_opt f then f else None)"
      "customer_lastName c = (if truthy_opt l then l else None)"
      "customer_password c = (if truthy_opt n then n else None)"
    by (simp_all add: c set_if_truthy_def)
  have nonempty: "customer_email c \<noteq> Some (JStr [])" "customer_phone c \<noteq> Some (JStr [])"
      "customer_firstName c \<noteq> Some (JStr [])" "customer_lastName c \<noteq> Some (JStr [])"
      "customer_password c \<noteq> Some (JStr [])"
    by (simp_all add: c set_if_truthy_not_empty)
  from b g fields nonempty show ?thesis
    by blast
qed

text \<open>A body with an empty phone, last name and new password: only email and first name
  reach the mutation.\<close>

theorem api_customer_witness:
  "(\<lparr>customer_email = Some (JStr ''a@b.co''), customer_phone = None,
     customer_firstName = Some (JStr ''Ann''), customer_lastName = None,
     customer_password = None\<rparr>, ''token'') \<in>
     set (snd (api (\<lambda>vars. ()) (\<lambda>key result. None)
       \<lparr>req_method = ''PATCH'',
        req_json = Inr (JObj [(''email'', JStr ''a@b.co''), (''phone'', JStr []),
                              (''firstName'', JStr ''Ann''), (''lastName'', JStr []),
                              (''currentPassword'', JStr []), (''newPassword'', JStr [])])\<rparr>
       (Some (Some ''token'')))) \<and>
   customer_phone \<lparr>customer_email = Some (JStr ''a@b.co''), customer_phone = None,
     customer_firstName = Some (JStr ''Ann''), customer_lastName = None,
     customer_password = None\<rparr> \<noteq> Some (JStr [])"
proof -
  let ?c = "\<lparr>customer_email = Some (JStr ''a@b.co''), customer_phone = None,
     customer_firstName = Some (JStr ''Ann''), customer_lastName = None,
     customer_password = None\<rparr>"
  let ?req = "\<lparr>req_method = ''PATCH'',
        req_json = Inr (JObj [(''email'', JStr ''a@b.co''), (''phone'', JStr []),
                              (''firstName'', JStr ''Ann''), (''lastName'', JStr []),
                              (''currentPassword'', JStr []), (''newPassword'', JStr [])])\<rparr>"
  have mem: "(?c, ''token'') \<in>
     set (snd (api (\<lambda>vars. ()) (\<lambda>key result. None) ?req (Some (Some ''token''))))"
    by (simp add: api_def set_if_truthy_def)
  from api_customer_omits_falsy_fields [OF mem] mem show ?thesis
    by blast
qed

end
